theory Spec2Isabelle
  imports Complex_Main
begin

section \<open>JavaScript values as the loans API client sees them\<close>

text \<open>
  The front end is JavaScript. The values that travel through the functions verified
  here are numbers, strings, \<open>undefined\<close>, \<open>null\<close>, booleans and plain objects
  (JSON bodies of the REST API). A number is a double: \<open>NaN\<close>, an infinity, or a finite
  value, which is a rational (not every rational is a double, so the model has more
  finite numbers than the runtime). Arithmetic on doubles rounds; it is not defined here
  but taken from the runtime (see \<open>subtract\<close> below).
\<close>

datatype js_number = NaN | Num rat | Infinity | NegInfinity

datatype js_value =
    JUndefined
  | JNull
  | JBool bool
  | JNum js_number
  | JStr string
  | JObj "(string \<times> js_value) list"

text \<open>Truthiness, as \<open>||\<close>, \<open>&&\<close>, \<open>!\<close> and \<open>if\<close> read a value.\<close>

fun truthy :: "js_value \<Rightarrow> bool" where
  "truthy JUndefined = False"
| "truthy JNull = False"
| "truthy (JBool b) = b"
| "truthy (JNum NaN) = False"
| "truthy (JNum (Num q)) = (q \<noteq> 0)"
| "truthy (JNum Infinity) = True"
| "truthy (JNum NegInfinity) = True"
| "truthy (JStr s) = (s \<noteq> [])"
| "truthy (JObj kvs) = True"

text \<open>
  \<open>v?.k\<close> for a key \<open>k\<close> that no primitive wrapper defines (\<open>client_secret\<close>,
  \<open>detail\<close>, \<open>amount\<close>, \<open>currency\<close>): \<open>undefined\<close> and \<open>null\<close> short-circuit to
  \<open>undefined\<close>, an object is looked up, a primitive has no such property.
\<close>

fun optional_property :: "js_value \<Rightarrow> string \<Rightarrow> js_value" where
  "optional_property (JObj kvs) k = (case map_of kvs k of Some v \<Rightarrow> v | None \<Rightarrow> JUndefined)"
| "optional_property v k = JUndefined"

text \<open>
  The i-th actual argument of a call: a JavaScript function called with fewer
  arguments than parameters sees \<open>undefined\<close>; extra arguments bind to no parameter.
\<close>

definition argument :: "js_value list \<Rightarrow> nat \<Rightarrow> js_value" where
  "argument args i = (if i < length args then args ! i else JUndefined)"

section \<open>The HTTP client (src/api/client.js)\<close>

datatype http_method = GET | POST

record request =
  meth :: http_method
  url :: string
  body :: js_value
  params :: "(string \<times> js_value) list"

record response =
  status :: int
  data :: js_value

text \<open>
  What axios rejects with: \<open>response\<close> is present when the server answered with an
  error status, absent on a network failure; an absent or empty \<open>message\<close> is \<open>''''\<close>
  (both are falsy, and the code only tests it with \<open>||\<close>).
\<close>

record axios_error =
  err_response :: "response option"
  err_message :: string

text \<open>
  What a \<open>throw\<close> carries in these files: the axios rejection itself, an \<open>Error\<close> built
  with \<open>new Error(msg)\<close>, the error object of the card collaborator (its message), or
  the runtime's \<open>TypeError\<close>.
\<close>

datatype thrown = AxiosError axios_error | Error string | StripeError string | TypeError string

text \<open>
  The environment the client runs in. \<open>send\<close> is the axios instance \<open>api\<close> talking to
  the REST server, whose state is \<open>'s\<close>; \<open>to_string\<close> is \<open>String(v)\<close> (template
  literals, \<open>new Error(v)\<close>), \<open>json_stringify\<close> is \<open>JSON.stringify\<close>, \<open>parse_number\<close> is
  \<open>Number(s)\<close> on a string, \<open>subtract\<close> is the binary \<open>-\<close> on two numbers (IEEE 754
  double subtraction, with its rounding and overflow). They belong to the runtime and
  the server, not to this repository's front end, so they are parameters.
\<close>

record 's env =
  send :: "request \<Rightarrow> 's \<Rightarrow> (axios_error + response) \<times> 's"
  to_string :: "js_value \<Rightarrow> string"
  json_stringify :: "js_value \<Rightarrow> string"
  parse_number :: "string \<Rightarrow> js_number"
  subtract :: "js_number \<Rightarrow> js_number \<Rightarrow> js_number"

text \<open>
  The world of a client call: the server's state and the requests issued so far,
  oldest first.
\<close>

type_synonym 's world = "'s \<times> request list"

type_synonym ('s, 'a) call = "'s world \<Rightarrow> (thrown + 'a) \<times> 's world"

definition api_request :: "'s env \<Rightarrow> request \<Rightarrow> 's world \<Rightarrow> (axios_error + response) \<times> 's world" where
  "api_request env rq w =
     (case send env rq (fst w) of (res, s') \<Rightarrow> (res, (s', snd w @ [rq])))"

text \<open>
  The requests a call added to the log: those of the world after it that the world
  before it did not hold.
\<close>

definition issued :: "'s world \<Rightarrow> 's world \<Rightarrow> request list" where
  "issued w w' = drop (length (snd w)) (snd w')"

text \<open>\<open>api.get(path, {params})\<close> and \<open>api.post(path, body, {params})\<close>.\<close>

definition get_request :: "string \<Rightarrow> (string \<times> js_value) list \<Rightarrow> request" where
  "get_request path ps = \<lparr>meth = GET, url = path, body = JUndefined, params = ps\<rparr>"

definition post_request :: "string \<Rightarrow> js_value \<Rightarrow> (string \<times> js_value) list \<Rightarrow> request" where
  "post_request path b ps = \<lparr>meth = POST, url = path, body = b, params = ps\<rparr>"

definition api_get :: "'s env \<Rightarrow> string \<Rightarrow> (string \<times> js_value) list \<Rightarrow> 's world \<Rightarrow> (axios_error + response) \<times> 's world" where
  "api_get env path ps = api_request env (get_request path ps)"

definition api_post :: "'s env \<Rightarrow> string \<Rightarrow> js_value \<Rightarrow> (string \<times> js_value) list \<Rightarrow> 's world \<Rightarrow> (axios_error + response) \<times> 's world" where
  "api_post env path b ps = api_request env (post_request path b ps)"

text \<open>
  \<open>handleError\<close> never returns: it throws \<open>new Error(msg)\<close>. The function below gives
  the value thrown.
\<close>

definition handleError :: "'s env \<Rightarrow> axios_error \<Rightarrow> thrown" where
  "handleError env err =
     (case err_response err of
        Some r \<Rightarrow>
          (case data r of
             JStr s \<Rightarrow> Error s
           | d \<Rightarrow>
               (let detail = optional_property d ''detail''
                in if truthy detail then Error (to_string env detail)
                   else Error (json_stringify env d)))
      | None \<Rightarrow> Error (if err_message err \<noteq> [] then err_message err else ''Network error''))"

section \<open>The loans API client (src/api/loans.js)\<close>

text \<open>\<open>e?.response?.status === 404\<close>\<close>

definition is_404 :: "axios_error \<Rightarrow> bool" where
  "is_404 e = (case err_response e of Some r \<Rightarrow> status r = 404 | None \<Rightarrow> False)"

text \<open>
  The \<open>fallback\<close> parameter is a path or \<open>undefined\<close>; the code tests it for
  truthiness, which an empty string fails as well.
\<close>

definition supplied :: "string option \<Rightarrow> bool" where
  "supplied fallback = (case fallback of Some p \<Rightarrow> p \<noteq> [] | None \<Rightarrow> False)"

definition getWithFallback :: "'s env \<Rightarrow> string \<Rightarrow> string option \<Rightarrow> (string \<times> js_value) list \<Rightarrow> ('s, js_value) call" where
  "getWithFallback env primary fallback config w =
     (case api_get env primary config w of
        (Inr res, w1) \<Rightarrow> (Inr (data res), w1)
      | (Inl e, w1) \<Rightarrow>
          if is_404 e \<and> supplied fallback then
            (case api_get env (the fallback) config w1 of
               (Inr res2, w2) \<Rightarrow> (Inr (data res2), w2)
             | (Inl e2, w2) \<Rightarrow> (Inl (AxiosError e2), w2))
          else (Inl (handleError env e), w1))"

definition postWithFallback :: "'s env \<Rightarrow> string \<Rightarrow> string option \<Rightarrow> js_value \<Rightarrow> (string \<times> js_value) list \<Rightarrow> ('s, js_value) call" where
  "postWithFallback env primary fallback b config w =
     (case api_post env primary b config w of
        (Inr res, w1) \<Rightarrow> (Inr (data res), w1)
      | (Inl e, w1) \<Rightarrow>
          if is_404 e \<and> supplied fallback then
            (case api_post env (the fallback) b config w1 of
               (Inr res2, w2) \<Rightarrow> (Inr (data res2), w2)
             | (Inl e2, w2) \<Rightarrow> (Inl (AxiosError e2), w2))
          else (Inl (handleError env e), w1))"

text \<open>
  \<open>createStripeIntent(loanId, repaymentId, { amount, currency } = {})\<close>. The third
  parameter is destructured: the default \<open>{}\<close> replaces \<open>undefined\<close> only, \<open>null\<close>
  cannot be destructured (the async function rejects with a TypeError before any
  request), and any other value is read for its \<open>amount\<close> and \<open>currency\<close> properties.
  The function is modelled on its list of actual arguments, since a caller decides how
  many it passes and in which positions.
\<close>

definition intent_primary :: "'s env \<Rightarrow> js_value \<Rightarrow> js_value \<Rightarrow> string" where
  "intent_primary env loanId repaymentId =
     ''/loans/'' @ to_string env loanId @ ''/repayments/'' @ to_string env repaymentId
       @ ''/stripe/intent''"

definition intent_fallback :: "'s env \<Rightarrow> js_value \<Rightarrow> js_value \<Rightarrow> string" where
  "intent_fallback env loanId repaymentId =
     ''/loans/loans/'' @ to_string env loanId @ ''/repayments/'' @ to_string env repaymentId
       @ ''/stripe/intent''"

definition createStripeIntent :: "'s env \<Rightarrow> js_value list \<Rightarrow> ('s, js_value) call" where
  "createStripeIntent env args w =
     (let loanId = argument args 0;
          repaymentId = argument args 1;
          opts = (if argument args 2 = JUndefined then JObj [] else argument args 2)
      in if opts = JNull
         then (Inl (TypeError ''Cannot destructure property 'amount' of 'object null' as it is null.''), w)
         else
           (let amount = optional_property opts ''amount'';
                currency = optional_property opts ''currency'';
                primary = intent_primary env loanId repaymentId;
                fallback = intent_fallback env loanId repaymentId
            in postWithFallback env primary (Some fallback) JNull
                 [(''amount'', amount), (''currency'', currency)] w))"

definition confirmStripeAuthorization :: "'s env \<Rightarrow> js_value \<Rightarrow> ('s, js_value) call" where
  "confirmStripeAuthorization env paymentIntentId w =
     (case api_post env ''/loans/payments/confirm'' JNull
             [(''payment_intent_id'', paymentIntentId)] w of
        (Inr res, w1) \<Rightarrow> (Inr (data res), w1)
      | (Inl e, w1) \<Rightarrow> (Inl (handleError env e), w1))"

text \<open>\<open>export const confirmAuthorization = confirmStripeAuthorization\<close>\<close>

definition confirmAuthorization :: "'s env \<Rightarrow> js_value \<Rightarrow> ('s, js_value) call" where
  "confirmAuthorization = confirmStripeAuthorization"

text \<open>
  \<open>payInstallment()\<close> declares no parameter and its body is one \<open>throw\<close>: whatever the
  arguments, the promise rejects and the world is untouched.
\<close>

definition deprecation_message :: string where
  "deprecation_message =
     ''payInstallment() is deprecated. Use createStripeIntent() + confirmAuthorization(), then have an officer approve.''"

definition payInstallment :: "js_value list \<Rightarrow> ('s, js_value) call" where
  "payInstallment args w = (Inl (Error deprecation_message), w)"

section \<open>The payment dialog (src/components/PaymentDialog.jsx)\<close>

text \<open>\<open>Number(v)\<close>; only the reading of a string is the runtime's.\<close>

fun to_number :: "'s env \<Rightarrow> js_value \<Rightarrow> js_number" where
  "to_number env (JNum n) = n"
| "to_number env JUndefined = NaN"
| "to_number env JNull = Num 0"
| "to_number env (JBool b) = Num (if b then 1 else 0)"
| "to_number env (JStr s) = parse_number env s"
| "to_number env (JObj kvs) = NaN"

text \<open>\<open>n > 0\<close>\<close>

fun num_positive :: "js_number \<Rightarrow> bool" where
  "num_positive (Num a) = (a > 0)"
| "num_positive Infinity = True"
| "num_positive NegInfinity = False"
| "num_positive NaN = False"

text \<open>\<open>v || 0\<close>\<close>

definition or_zero :: "js_value \<Rightarrow> js_value" where
  "or_zero v = (if truthy v then v else JNum (Num 0))"

text \<open>The fields of a repayment row that the dialog reads.\<close>

record repayment_row =
  rp_id :: js_value
  rp_amount_due :: js_value
  rp_amount_paid :: js_value

text \<open>The dialog's React state.\<close>

record dialog =
  amount :: js_value
  busy :: bool
  err :: string
  ok :: string

text \<open>
  What \<open>stripe.confirmCardPayment\<close> resolves to: an \<open>error\<close> (its message) or a
  \<open>paymentIntent\<close> with an id and the card-side status.
\<close>

record payment_intent =
  pi_id :: js_value
  pi_status :: js_value

record stripe_result =
  result_error :: "string option"
  paymentIntent :: "payment_intent option"

text \<open>\<open>e?.message\<close> of a caught value.\<close>

fun thrown_message :: "thrown \<Rightarrow> string" where
  "thrown_message (AxiosError e) = err_message e"
| "thrown_message (Error m) = m"
| "thrown_message (StripeError m) = m"
| "thrown_message (TypeError m) = m"

text \<open>The \<open>catch\<close> and \<open>finally\<close> of \<open>submit\<close>.\<close>

definition submit_failed :: "dialog \<Rightarrow> thrown \<Rightarrow> dialog" where
  "submit_failed d e =
     d\<lparr>err := (if thrown_message e \<noteq> [] then thrown_message e else ''Payment failed''),
       busy := False\<rparr>"

text \<open>
  The first two statements of \<open>submit\<close>'s \<open>try\<close> block:
  \<open>remaining = (repayment.amount_due || 0) - (repayment.amount_paid || 0)\<close> and
  \<open>payAmt = Number(amount) > 0 ? Number(amount) : remaining\<close>.
\<close>

definition remaining :: "'s env \<Rightarrow> repayment_row \<Rightarrow> js_number" where
  "remaining env repayment =
     subtract env (to_number env (or_zero (rp_amount_due repayment)))
                  (to_number env (or_zero (rp_amount_paid repayment)))"

definition payAmt :: "'s env \<Rightarrow> repayment_row \<Rightarrow> dialog \<Rightarrow> js_number" where
  "payAmt env repayment d =
     (if num_positive (to_number env (amount d)) then to_number env (amount d)
      else remaining env repayment)"

text \<open>\<open>result.paymentIntent?.status\<close>\<close>

definition card_status :: "stripe_result \<Rightarrow> js_value" where
  "card_status result = (case paymentIntent result of Some p \<Rightarrow> pi_status p | None \<Rightarrow> JUndefined)"

text \<open>
  \<open>submit\<close>. The card collaborator \<open>stripe.confirmCardPayment(client_secret, ...)\<close> is
  the parameter \<open>confirmCardPayment\<close>. The call of \<open>createStripeIntent\<close> passes four
  positional arguments, as the source does. Reading \<open>result.paymentIntent.id\<close> of an
  absent intent would be a TypeError; the status test before it excludes that.
\<close>

definition submit :: "'s env \<Rightarrow> (js_value \<Rightarrow> stripe_result) \<Rightarrow> js_value \<Rightarrow> repayment_row \<Rightarrow> dialog \<Rightarrow> 's world \<Rightarrow> dialog \<times> 's world" where
  "submit env confirmCardPayment loan_id repayment d w =
     (let d0 = d\<lparr>err := [], ok := [], busy := True\<rparr>
      in case createStripeIntent env
                [loan_id, rp_id repayment, JNum (payAmt env repayment d), JStr ''usd''] w of
           (Inl e, w1) \<Rightarrow> (submit_failed d0 e, w1)
         | (Inr intent, w1) \<Rightarrow>
             if \<not> truthy (optional_property intent ''client_secret'')
             then (submit_failed d0 (Error ''Unable to create payment''), w1)
             else
               (let result = confirmCardPayment (optional_property intent ''client_secret'')
                in case result_error result of
                     Some m \<Rightarrow> (submit_failed d0 (StripeError m), w1)
                   | None \<Rightarrow>
                       if card_status result \<noteq> JStr ''requires_capture''
                       then (submit_failed d0
                               (Error (''Unexpected status: '' @ to_string env (card_status result))),
                             w1)
                       else
                         (case paymentIntent result of
                            None \<Rightarrow>
                              (submit_failed d0
                                 (TypeError ''Cannot read properties of undefined (reading 'id')''), w1)
                          | Some pint \<Rightarrow>
                              (case confirmAuthorization env (pi_id pint) w1 of
                                 (Inl e, w2) \<Rightarrow> (submit_failed d0 e, w2)
                               | (Inr r, w2) \<Rightarrow>
                                   (d0\<lparr>ok := ''Payment authorized. Waiting for officer approval.'',
                                       busy := False\<rparr>, w2)))))"

section \<open>The repayments page (LoanRepayments)\<close>

datatype ui_effect = Alert string | WindowOpen js_value

text \<open>
  \<open>pay(r)\<close>. The page's \<open>load()\<close>, which refetches the schedule, is a parameter: it
  changes the page state \<open>'p\<close> and the world. The result lists the alerts and windows
  opened.
\<close>

definition pay :: "('p \<times> 's world \<Rightarrow> 'p \<times> 's world) \<Rightarrow> js_value \<Rightarrow> js_value \<Rightarrow> 'p \<times> 's world \<Rightarrow> ui_effect list \<times> ('p \<times> 's world)" where
  "pay load loanId r_id pw =
     (case payInstallment [loanId, r_id] (snd pw) of
        (Inr res, w1) \<Rightarrow>
          (let pw2 = load (fst pw, w1)
           in if truthy (optional_property res ''receipt'')
              then ([WindowOpen (optional_property res ''receipt'')], pw2)
              else ([], pw2))
      | (Inl e, w1) \<Rightarrow>
          ([Alert (if thrown_message e \<noteq> [] then thrown_message e else ''Payment failed'')],
           (fst pw, w1)))"

text \<open>Whether the primary request's outcome makes the helpers try the fallback path.\<close>

definition fallback_wanted :: "axios_error + response \<Rightarrow> string option \<Rightarrow> bool" where
  "fallback_wanted r fallback = (case r of Inl e \<Rightarrow> is_404 e \<and> supplied fallback | Inr res \<Rightarrow> False)"

section \<open>An example server\<close>

text \<open>
  A small concrete environment on which the statements below are evaluated. The server
  counts the requests it accepted; it knows no \<open>/loans/mine\<close> (404), refuses
  \<open>/loans/chart\<close> (500), creates a card intent for repayment 3 of loan 7 and accepts
  every confirmation.
\<close>

fun example_to_string :: "js_value \<Rightarrow> string" where
  "example_to_string (JStr s) = s"
| "example_to_string JUndefined = ''undefined''"
| "example_to_string JNull = ''null''"
| "example_to_string (JBool b) = (if b then ''true'' else ''false'')"
| "example_to_string (JNum n) = ''0''"
| "example_to_string (JObj kvs) = ''[object Object]''"

definition example_send :: "request \<Rightarrow> nat \<Rightarrow> (axios_error + response) \<times> nat" where
  "example_send rq n =
     (if url rq = ''/loans/mine'' then
        (Inl \<lparr>err_response = Some \<lparr>status = 404, data = JObj [(''detail'', JStr ''Not Found'')]\<rparr>,
              err_message = ''Request failed with status code 404''\<rparr>, n)
      else if url rq = ''/loans/chart'' then
        (Inl \<lparr>err_response = Some \<lparr>status = 500, data = JStr ''Internal Server Error''\<rparr>,
              err_message = ''Request failed with status code 500''\<rparr>, n)
      else if url rq = ''/loans/7/repayments/3/stripe/intent'' then
        (Inr \<lparr>status = 200,
              data = JObj [(''client_secret'', JStr ''cs_1''), (''payment_id'', JStr ''41''),
                           (''payment_intent_id'', JStr ''pi_1'')]\<rparr>, Suc n)
      else (Inr \<lparr>status = 200, data = JStr ''ok''\<rparr>, Suc n))"

text \<open>Subtraction for the example: exact on finite numbers, \<open>NaN\<close> otherwise.\<close>

fun example_subtract :: "js_number \<Rightarrow> js_number \<Rightarrow> js_number" where
  "example_subtract (Num a) (Num b) = Num (a - b)"
| "example_subtract a b = NaN"

definition example_env :: "nat env" where
  "example_env =
     \<lparr>send = example_send, to_string = example_to_string,
      json_stringify = (\<lambda>v. ''{}''), parse_number = (\<lambda>s. NaN),
      subtract = example_subtract\<rparr>"

text \<open>
  Repayment 3 of loan 7 with 1000.00 due and nothing paid, a dialog in which the borrower
  typed 250, and a card collaborator that answers that the funds are held
  (\<open>requires_capture\<close>).
\<close>

definition example_repayment :: repayment_row where
  "example_repayment = \<lparr>rp_id = JStr ''3'', rp_amount_due = JNum (Num 1000), rp_amount_paid = JUndefined\<rparr>"

definition example_dialog :: dialog where
  "example_dialog = \<lparr>amount = JNum (Num 250), busy = False, err = [], ok = []\<rparr>"

definition card_holds_funds :: "js_value \<Rightarrow> stripe_result" where
  "card_holds_funds secret =
     \<lparr>result_error = None,
      paymentIntent = Some \<lparr>pi_id = JStr ''pi_1'', pi_status = JStr ''requires_capture''\<rparr>\<rparr>"

section \<open>The repayment lifecycle behind the API\<close>

text \<open>
  The REST server that the client calls (the repository's \<open>backend/\<close>) is not among the
  sources verified here. The definitions of this section are written from the
  specification's sections 3 and 4 instead; each says so. Money is an exact rational
  amount of currency units, a record's id is its position in its store, and the card
  collaborator and the receipt emitter are parameters.
\<close>

text \<open>
  Modelled from the spec: the status sets of section 3 and the failure names of
  sections 4.2, 4.3 and 7 (the server's enumerations are missing).
\<close>

datatype repayment_status = Due | PartiallyPaid | Paid | Late

datatype authorization_status = Authorized | Captured | Canceled

datatype failure =
    DuplicateAuthorization
  | AmountOutOfRange
  | ExternalAuthorizationFailed
  | AuthorizationNotReady
  | NotFound
  | InvalidState
  | ExternalCaptureFailed
  | ExternalServiceError

text \<open>
  Modelled from the spec: due dates and the clock (section 4.4 compares \<open>due_date < now\<close>),
  as calendar dates in their order.
\<close>

record date =
  year :: nat
  month :: nat
  day :: nat

definition before :: "date \<Rightarrow> date \<Rightarrow> bool" where
  "before a b =
     (year a < year b
      \<or> (year a = year b \<and> (month a < month b \<or> (month a = month b \<and> day a < day b))))"

text \<open>
  Modelled from the spec: the Repayment entity of section 3 (the server's table is
  missing). The spec's fields \<open>loan_id\<close> and \<open>status\<close> are \<open>r_loan_id\<close> and
  \<open>installment_status\<close> here.
\<close>

record repayment =
  r_loan_id :: nat
  sequence_index :: nat
  due_date :: date
  amount_due :: rat
  amount_paid :: rat
  installment_status :: repayment_status
  receipt_reference :: "string option"

text \<open>
  Modelled from the spec: the Payment Authorization entity of section 3 (the server's
  table is missing). The spec's fields \<open>amount\<close> and \<open>status\<close> are \<open>authorized_amount\<close> and
  \<open>authorization_status\<close> here.
\<close>

record payment_authorization =
  pa_loan_id :: nat
  repayment_id :: nat
  authorized_amount :: rat
  currency :: string
  authorization_status :: authorization_status
  authorized_at :: date
  external_reference :: string

text \<open>
  Modelled from the spec: the payment-card collaborator of section 6, with the status
  report that \<open>confirm\<close> consults. \<open>None\<close> and \<open>False\<close> are its opaque failures.
\<close>

record card_collaborator =
  createIntent :: "rat \<Rightarrow> string \<Rightarrow> string option"
  reported_status :: "string \<Rightarrow> string"
  capture_funds :: "string \<Rightarrow> rat option"
  void_hold :: "string \<Rightarrow> bool"

text \<open>
  Modelled from the spec: what the lifecycle stores, the repayments and the Payment
  Authorizations (the server's database is missing). A record's id is its index.
\<close>

record ledger =
  repayments :: "repayment list"
  authorizations :: "payment_authorization list"

text \<open>
  Modelled from the spec: the Installment Status Reconciler of section 4.4 (the
  server's function is missing), its four rules in the order given.
\<close>

definition reconcile :: "date \<Rightarrow> repayment \<Rightarrow> repayment_status" where
  "reconcile now r =
     (if amount_paid r \<ge> amount_due r then Paid
      else if amount_paid r > 0 then PartiallyPaid
      else if before (due_date r) now then Late
      else Due)"

text \<open>Modelled from the spec: \<open>remaining = amount_due - amount_paid\<close> (section 4.2).\<close>

definition remaining_balance :: "repayment \<Rightarrow> rat" where
  "remaining_balance r = amount_due r - amount_paid r"

text \<open>
  Modelled from the spec: the precondition of section 4.2 that no \<open>Authorized\<close> record
  exists for the repayment.
\<close>

definition has_authorized :: "ledger \<Rightarrow> nat \<Rightarrow> bool" where
  "has_authorized l rid =
     list_ex (\<lambda>p. repayment_id p = rid \<and> authorization_status p = Authorized) (authorizations l)"

text \<open>
  Modelled from the spec: the amount rule of \<open>authorize\<close> (section 4.2): the requested
  amount defaults to the remaining balance when it is not supplied or not positive.
\<close>

definition amount_to_authorize :: "rat \<Rightarrow> rat option \<Rightarrow> rat" where
  "amount_to_authorize balance requested =
     (case requested of
        None \<Rightarrow> balance
      | Some a \<Rightarrow> if a \<le> 0 then balance else a)"

text \<open>
  Modelled from the spec: \<open>authorize\<close> of section 4.2 (the server's endpoint behind
  \<open>createStripeIntent\<close> is missing). The preconditions are checked in the order the spec
  lists them: the repayment is not \<open>Paid\<close>, no \<open>Authorized\<close> record exists for it, the
  amount is in range; then the collaborator creates the intent and the row is created
  in state \<open>Authorized\<close>. The spec names no failure for a \<open>Paid\<close> repayment;
  \<open>InvalidState\<close> is used. The result is the new record's id.
\<close>

definition authorize :: "card_collaborator \<Rightarrow> date \<Rightarrow> ledger \<Rightarrow> nat \<Rightarrow> rat option \<Rightarrow> string \<Rightarrow> (failure + nat) \<times> ledger" where
  "authorize collab now l rid requested cur =
     (if rid \<ge> length (repayments l) then (Inl NotFound, l)
      else
        (let r = repayments l ! rid;
             amt = amount_to_authorize (remaining_balance r) requested
         in if installment_status r = Paid then (Inl InvalidState, l)
            else if has_authorized l rid then (Inl DuplicateAuthorization, l)
            else if \<not> (0 < amt \<and> amt \<le> remaining_balance r) then (Inl AmountOutOfRange, l)
            else
              (case createIntent collab amt cur of
                 None \<Rightarrow> (Inl ExternalAuthorizationFailed, l)
               | Some ref \<Rightarrow>
                   (Inr (length (authorizations l)),
                    l\<lparr>authorizations := authorizations l @
                        [\<lparr>pa_loan_id = r_loan_id r, repayment_id = rid, authorized_amount = amt,
                          currency = cur, authorization_status = Authorized,
                          authorized_at = now, external_reference = ref\<rparr>]\<rparr>))))"

text \<open>
  Modelled from the spec: \<open>confirm\<close> of section 4.2 (the server's endpoint behind
  \<open>confirmStripeAuthorization\<close> is missing). Section 3 gives a Payment Authorization
  the states \<open>Authorized\<close>, \<open>Captured\<close> and \<open>Canceled\<close> only and \<open>authorize\<close> creates the
  row as \<open>Authorized\<close>, so \<open>confirm\<close> has no state to write: it finds the record of the
  external reference and succeeds when the collaborator reports \<open>requires_capture\<close>.
\<close>

definition confirm :: "card_collaborator \<Rightarrow> ledger \<Rightarrow> string \<Rightarrow> (failure + nat) \<times> ledger" where
  "confirm collab l ref =
     (case List.find (\<lambda>i. external_reference (authorizations l ! i) = ref)
             [0 ..< length (authorizations l)] of
        None \<Rightarrow> (Inl NotFound, l)
      | Some i \<Rightarrow>
          if reported_status collab ref = ''requires_capture'' then (Inr i, l)
          else (Inl AuthorizationNotReady, l))"

text \<open>
  Modelled from the spec: \<open>capture\<close> of section 4.3 (the server's endpoint behind
  \<open>approvePayment\<close> is missing). The record must exist and be \<open>Authorized\<close>; the
  collaborator captures; only then the record becomes \<open>Captured\<close>, the owning
  repayment's \<open>amount_paid\<close> grows by the captured amount, its status is reconciled and
  the receipt reference of the Receipt Emitter (the parameter \<open>emitReceipt\<close>) is
  recorded. The result is the new repayment status and the receipt reference.
\<close>

definition capture :: "card_collaborator \<Rightarrow> (repayment \<Rightarrow> payment_authorization \<Rightarrow> string) \<Rightarrow> date \<Rightarrow> ledger \<Rightarrow> nat \<Rightarrow> (failure + repayment_status \<times> string) \<times> ledger" where
  "capture collab emitReceipt now l pid =
     (if pid \<ge> length (authorizations l) then (Inl NotFound, l)
      else
        (let p = authorizations l ! pid
         in if authorization_status p \<noteq> Authorized then (Inl InvalidState, l)
            else if repayment_id p \<ge> length (repayments l) then (Inl NotFound, l)
            else
              (case capture_funds collab (external_reference p) of
                 None \<Rightarrow> (Inl ExternalCaptureFailed, l)
               | Some captured \<Rightarrow>
                   (let r = repayments l ! repayment_id p;
                        p' = p\<lparr>authorization_status := Captured\<rparr>;
                        r1 = r\<lparr>amount_paid := amount_paid r + captured\<rparr>;
                        r2 = r1\<lparr>installment_status := reconcile now r1\<rparr>;
                        receipt = emitReceipt r2 p';
                        r3 = r2\<lparr>receipt_reference := Some receipt\<rparr>
                    in (Inr (installment_status r3, receipt),
                        l\<lparr>authorizations := (authorizations l)[pid := p'],
                          repayments := (repayments l)[repayment_id p := r3]\<rparr>)))))"

text \<open>
  Modelled from the spec: \<open>cancel\<close> of section 4.3 (the server's endpoint behind
  \<open>cancelPayment\<close> is missing): the same preconditions, the collaborator voids the
  hold, the record becomes \<open>Canceled\<close>, \<open>amount_paid\<close> is not touched. A failed void is the
  \<open>ExternalServiceError\<close> of section 7.
\<close>

definition cancel :: "card_collaborator \<Rightarrow> ledger \<Rightarrow> nat \<Rightarrow> (failure + unit) \<times> ledger" where
  "cancel collab l pid =
     (if pid \<ge> length (authorizations l) then (Inl NotFound, l)
      else
        (let p = authorizations l ! pid
         in if authorization_status p \<noteq> Authorized then (Inl InvalidState, l)
            else if void_hold collab (external_reference p)
            then (Inr (), l\<lparr>authorizations :=
                    (authorizations l)[pid := p\<lparr>authorization_status := Canceled\<rparr>]\<rparr>)
            else (Inl ExternalServiceError, l)))"

text \<open>
  Modelled from the spec: section 5 makes each operation a single externally triggered
  transaction. The four operations are one step function here, which gives the
  failure, if any, and the ledger after the operation. A run applies operations in
  sequence, each at its own time, whether they fail or not.
\<close>

datatype operation =
    Authorize nat "rat option" string
  | Confirm string
  | Capture nat
  | Cancel nat

definition failure_of :: "(failure + 'a) \<times> ledger \<Rightarrow> failure option \<times> ledger" where
  "failure_of out = (case fst out of Inl f \<Rightarrow> Some f | Inr v \<Rightarrow> None, snd out)"

fun perform :: "card_collaborator \<Rightarrow> (repayment \<Rightarrow> payment_authorization \<Rightarrow> string) \<Rightarrow> ledger \<Rightarrow> date \<times> operation \<Rightarrow> failure option \<times> ledger" where
  "perform collab emitReceipt l (now, Authorize rid requested cur) =
     failure_of (authorize collab now l rid requested cur)"
| "perform collab emitReceipt l (now, Confirm ref) = failure_of (confirm collab l ref)"
| "perform collab emitReceipt l (now, Capture pid) = failure_of (capture collab emitReceipt now l pid)"
| "perform collab emitReceipt l (now, Cancel pid) = failure_of (cancel collab l pid)"

fun run :: "card_collaborator \<Rightarrow> (repayment \<Rightarrow> payment_authorization \<Rightarrow> string) \<Rightarrow> ledger \<Rightarrow> (date \<times> operation) list \<Rightarrow> ledger" where
  "run collab emitReceipt l [] = l"
| "run collab emitReceipt l (step # steps) =
     run collab emitReceipt (snd (perform collab emitReceipt l step)) steps"

text \<open>
  Modelled from the spec: the status of the Payment Authorization with a given id, if
  the record exists.
\<close>

definition status_of :: "ledger \<Rightarrow> nat \<Rightarrow> authorization_status option" where
  "status_of l pid =
     (if pid < length (authorizations l)
      then Some (authorization_status (authorizations l ! pid)) else None)"

text \<open>
  Modelled from the spec: the state machine of section 4.3,
  \<open>(none) \<rightarrow> Authorized \<rightarrow> {Captured | Canceled}\<close>, as the steps a record's status may
  take in one operation, staying as it is included.
\<close>

fun may_become :: "authorization_status option \<Rightarrow> authorization_status option \<Rightarrow> bool" where
  "may_become None b = (b = None \<or> b = Some Authorized)"
| "may_become (Some Authorized) b = (b = Some Authorized \<or> b = Some Captured \<or> b = Some Canceled)"
| "may_become (Some Captured) b = (b = Some Captured)"
| "may_become (Some Canceled) b = (b = Some Canceled)"

text \<open>
  An example ledger: one installment of 1000.00 due on 2024-01-01 with nothing paid, and
  a collaborator that accepts everything. \<open>settled_ledger\<close> is the ledger after the
  installment was authorized in full and captured.
\<close>

definition example_collaborator :: card_collaborator where
  "example_collaborator =
     \<lparr>createIntent = (\<lambda>a c. Some ''pi_1''), reported_status = (\<lambda>ref. ''requires_capture''),
      capture_funds = (\<lambda>ref. Some 1000), void_hold = (\<lambda>ref. True)\<rparr>"

definition example_receipt :: "repayment \<Rightarrow> payment_authorization \<Rightarrow> string" where
  "example_receipt r p = ''receipts/'' @ external_reference p @ ''.pdf''"

definition example_installment :: repayment where
  "example_installment =
     \<lparr>r_loan_id = 7, sequence_index = 1, due_date = \<lparr>year = 2024, month = 1, day = 1\<rparr>,
      amount_due = 1000, amount_paid = 0, installment_status = Due, receipt_reference = None\<rparr>"

definition example_ledger :: ledger where
  "example_ledger = \<lparr>repayments = [example_installment], authorizations = []\<rparr>"

definition settled_ledger :: ledger where
  "settled_ledger =
     run example_collaborator example_receipt example_ledger
       [(\<lparr>year = 2023, month = 12, day = 20\<rparr>, Authorize 0 (Some 1000) ''usd''),
        (\<lparr>year = 2023, month = 12, day = 21\<rparr>, Capture 0)]"


section \<open>Properties of the API client\<close>

lemma handleError_is_Error: "\<exists>msg. handleError env e = Error msg"
  by (simp add: handleError_def Let_def split: option.splits js_value.splits)

lemma api_request_log:
  "api_request env rq w = (r, w') \<Longrightarrow> snd w' = snd w @ [rq] \<and> send env rq (fst w) = (r, fst w')"
  by (auto simp: api_request_def split: prod.splits)

lemma getWithFallback_primary_ok:
  assumes "api_get env primary config w = (Inr res, w1)"
  shows "getWithFallback env primary fallback config w = (Inr (data res), w1)"
  using assms by (simp add: getWithFallback_def)

lemma getWithFallback_other_failure:
  assumes "api_get env primary config w = (Inl e, w1)" and "\<not> (is_404 e \<and> supplied fallback)"
  shows "getWithFallback env primary fallback config w = (Inl (handleError env e), w1)"
  using assms by (auto simp: getWithFallback_def)

lemma getWithFallback_retry:
  assumes "api_get env primary config w = (Inl e, w1)" and "is_404 e" and "supplied fallback"
  shows "getWithFallback env primary fallback config w =
           (case api_get env (the fallback) config w1 of
              (Inr res2, w2) \<Rightarrow> (Inr (data res2), w2)
            | (Inl e2, w2) \<Rightarrow> (Inl (AxiosError e2), w2))"
  using assms by (simp add: getWithFallback_def)

lemma postWithFallback_primary_ok:
  assumes "api_post env primary b config w = (Inr res, w1)"
  shows "postWithFallback env primary fallback b config w = (Inr (data res), w1)"
  using assms by (simp add: postWithFallback_def)

lemma postWithFallback_other_failure:
  assumes "api_post env primary b config w = (Inl e, w1)" and "\<not> (is_404 e \<and> supplied fallback)"
  shows "postWithFallback env primary fallback b config w = (Inl (handleError env e), w1)"
  using assms by (auto simp: postWithFallback_def)

lemma postWithFallback_retry:
  assumes "api_post env primary b config w = (Inl e, w1)" and "is_404 e" and "supplied fallback"
  shows "postWithFallback env primary fallback b config w =
           (case api_post env (the fallback) b config w1 of
              (Inr res2, w2) \<Rightarrow> (Inr (data res2), w2)
            | (Inl e2, w2) \<Rightarrow> (Inl (AxiosError e2), w2))"
  using assms by (simp add: postWithFallback_def)

lemma getWithFallback_issued:
  assumes p: "api_get env primary config w = (r1, w1)"
      and g: "getWithFallback env primary fallback config w = (out, w')"
  shows "issued w w' =
           (if (\<exists>e. r1 = Inl e \<and> is_404 e) \<and> supplied fallback
            then [get_request primary config, get_request (the fallback) config]
            else [get_request primary config])"
proof -
  from p have l1: "snd w1 = snd w @ [get_request primary config]"
    by (auto simp: api_get_def dest: api_request_log)
  show ?thesis
  proof (cases r1)
    case (Inr res)
    with p g l1 show ?thesis
      by (auto simp: getWithFallback_primary_ok issued_def)
  next
    case (Inl e)
    show ?thesis
    proof (cases "is_404 e \<and> supplied fallback")
      case False
      with Inl p g l1 show ?thesis
        by (auto simp: getWithFallback_other_failure issued_def)
    next
      case True
      obtain r2 w2 where f: "api_get env (the fallback) config w1 = (r2, w2)"
        by (cases "api_get env (the fallback) config w1")
      then have l2: "snd w2 = snd w1 @ [get_request (the fallback) config]"
        by (auto simp: api_get_def dest: api_request_log)
      from True Inl p g f have "w' = w2"
        by (cases r2) (auto simp: getWithFallback_retry)
      with l1 l2 True Inl show ?thesis
        by (simp add: issued_def)
    qed
  qed
qed

lemma postWithFallback_issued:
  assumes p: "api_post env primary b config w = (r1, w1)"
      and g: "postWithFallback env primary fallback b config w = (out, w')"
  shows "issued w w' =
           (if (\<exists>e. r1 = Inl e \<and> is_404 e) \<and> supplied fallback
            then [post_request primary b config, post_request (the fallback) b config]
            else [post_request primary b config])"
proof -
  from p have l1: "snd w1 = snd w @ [post_request primary b config]"
    by (auto simp: api_post_def dest: api_request_log)
  show ?thesis
  proof (cases r1)
    case (Inr res)
    with p g l1 show ?thesis
      by (auto simp: postWithFallback_primary_ok issued_def)
  next
    case (Inl e)
    show ?thesis
    proof (cases "is_404 e \<and> supplied fallback")
      case False
      with Inl p g l1 show ?thesis
        by (auto simp: postWithFallback_other_failure issued_def)
    next
      case True
      obtain r2 w2 where f: "api_post env (the fallback) b config w1 = (r2, w2)"
        by (cases "api_post env (the fallback) b config w1")
      then have l2: "snd w2 = snd w1 @ [post_request (the fallback) b config]"
        by (auto simp: api_post_def dest: api_request_log)
      from True Inl p g f have "w' = w2"
        by (cases r2) (auto simp: postWithFallback_retry)
      with l1 l2 True Inl show ?thesis
        by (simp add: issued_def)
    qed
  qed
qed


lemma deprecation_message_nonempty: "deprecation_message \<noteq> []"
  by (simp add: deprecation_message_def)

lemma createStripeIntent_positional:
  "createStripeIntent env [l, r, JNum n, c] w =
     postWithFallback env (intent_primary env l r) (Some (intent_fallback env l r)) JNull
       [(''amount'', JUndefined), (''currency'', JUndefined)] w"
  by (simp add: createStripeIntent_def argument_def Let_def)

lemma createStripeIntent_options:
  "createStripeIntent env [l, r, JObj [(''amount'', a), (''currency'', c)]] w =
     postWithFallback env (intent_primary env l r) (Some (intent_fallback env l r)) JNull
       [(''amount'', a), (''currency'', c)] w"
  by (simp add: createStripeIntent_def argument_def Let_def)

lemma postWithFallback_log:
  assumes "postWithFallback env primary (Some fb) b config w = (out, w')"
  shows "\<exists>rest. snd w' = snd w @ post_request primary b config # rest
           \<and> (rest = [] \<or> rest = [post_request fb b config])"
proof -
  obtain r1 w1 where p: "api_post env primary b config w = (r1, w1)"
    by (cases "api_post env primary b config w")
  from p have l1: "snd w1 = snd w @ [post_request primary b config]"
    by (auto simp: api_post_def dest: api_request_log)
  show ?thesis
  proof (cases "fallback_wanted r1 (Some fb)")
    case False
    with p assms have "w' = w1"
      by (cases r1) (auto simp: postWithFallback_def fallback_wanted_def)
    with l1 show ?thesis by simp
  next
    case True
    then obtain e where e: "r1 = Inl e" "is_404 e" "supplied (Some fb)"
      by (cases r1) (auto simp: fallback_wanted_def)
    obtain r2 w2 where f: "api_post env fb b config w1 = (r2, w2)"
      by (cases "api_post env fb b config w1")
    then have l2: "snd w2 = snd w1 @ [post_request fb b config]"
      by (auto simp: api_post_def dest: api_request_log)
    from e p f assms have "w' = w2"
      by (cases r2) (auto simp: postWithFallback_def)
    with l1 l2 show ?thesis by simp
  qed
qed

lemma confirmStripeAuthorization_log:
  assumes "confirmStripeAuthorization env pid w = (out, w')"
  shows "snd w' = snd w @ [post_request ''/loans/payments/confirm'' JNull [(''payment_intent_id'', pid)]]"
proof -
  obtain r1 w1 where p: "api_post env ''/loans/payments/confirm'' JNull [(''payment_intent_id'', pid)] w = (r1, w1)"
    by (cases "api_post env ''/loans/payments/confirm'' JNull [(''payment_intent_id'', pid)] w")
  then have l1: "snd w1 = snd w @ [post_request ''/loans/payments/confirm'' JNull [(''payment_intent_id'', pid)]]"
    by (auto simp: api_post_def dest: api_request_log)
  from p assms have "w' = w1"
    by (cases r1) (auto simp: confirmStripeAuthorization_def)
  with l1 show ?thesis by simp
qed

lemma submit_world:
  "snd (submit env ccp loan_id rp d w) = w' \<Longrightarrow>
   \<exists>out w1. createStripeIntent env [loan_id, rp_id rp, JNum (payAmt env rp d), JStr ''usd''] w = (out, w1)
     \<and> (w' = w1 \<or> (\<exists>pid r. confirmStripeAuthorization env pid w1 = (r, w')))"
  by (auto simp: submit_def Let_def confirmAuthorization_def split: prod.splits sum.splits option.splits if_splits)

lemma example_submit_held:
  "submit example_env card_holds_funds (JStr ''7'') example_repayment example_dialog (0, []) =
     (example_dialog\<lparr>ok := ''Payment authorized. Waiting for officer approval.''\<rparr>,
      (2, [post_request ''/loans/7/repayments/3/stripe/intent'' JNull
             [(''amount'', JUndefined), (''currency'', JUndefined)],
           post_request ''/loans/payments/confirm'' JNull [(''payment_intent_id'', JStr ''pi_1'')]]))"
  by code_simp

text \<open>
  Claim C8. \<open>getWithFallback\<close> and \<open>postWithFallback\<close> issue their first request to the
  primary path. The fallback path is requested exactly when the primary request failed
  with HTTP status 404 and a (non-empty) fallback path was given; the call then ends as
  the fallback request ends: its response's data on success, its rejection as it is on
  failure. On any other primary failure nothing more is requested and the value thrown
  is the \<open>Error\<close> that \<open>handleError\<close> builds. A successful primary request returns its
  data.
\<close>

theorem fallback_tried_iff_primary_404:
  assumes "api_get env primary config w = (r1, w1)"
      and "getWithFallback env primary fallback config w = (out, w')"
      and "api_post env primary b config v = (q1, v1)"
      and "postWithFallback env primary fallback b config v = (pout, v')"
  shows
    "issued w w' =
       (if fallback_wanted r1 fallback
        then [get_request primary config, get_request (the fallback) config]
        else [get_request primary config])
     \<and> (fallback_wanted r1 fallback \<longrightarrow>
           (out, w') =
             (case api_get env (the fallback) config w1 of
                (Inr res2, w2) \<Rightarrow> (Inr (data res2), w2)
              | (Inl e2, w2) \<Rightarrow> (Inl (AxiosError e2), w2)))
     \<and> (\<forall>e. r1 = Inl e \<and> \<not> fallback_wanted r1 fallback \<longrightarrow>
           out = Inl (handleError env e) \<and> (\<exists>msg. out = Inl (Error msg)) \<and> w' = w1)
     \<and> (\<forall>res. r1 = Inr res \<longrightarrow> out = Inr (data res) \<and> w' = w1)
     \<and> issued v v' =
       (if fallback_wanted q1 fallback
        then [post_request primary b config, post_request (the fallback) b config]
        else [post_request primary b config])
     \<and> (fallback_wanted q1 fallback \<longrightarrow>
           (pout, v') =
             (case api_post env (the fallback) b config v1 of
                (Inr res2, v2) \<Rightarrow> (Inr (data res2), v2)
              | (Inl e2, v2) \<Rightarrow> (Inl (AxiosError e2), v2)))
     \<and> (\<forall>e. q1 = Inl e \<and> \<not> fallback_wanted q1 fallback \<longrightarrow>
           pout = Inl (handleError env e) \<and> (\<exists>msg. pout = Inl (Error msg)) \<and> v' = v1)
     \<and> (\<forall>res. q1 = Inr res \<longrightarrow> pout = Inr (data res) \<and> v' = v1)"
proof -
  have wanted: "\<And>r. fallback_wanted r fallback = ((\<exists>e. r = Inl e \<and> is_404 e) \<and> supplied fallback)"
    by (auto simp: fallback_wanted_def split: sum.splits)
  have g1: "issued w w' =
       (if fallback_wanted r1 fallback
        then [get_request primary config, get_request (the fallback) config]
        else [get_request primary config])"
    using getWithFallback_issued [OF assms(1) assms(2)] by (simp add: wanted)
  have g2: "fallback_wanted r1 fallback \<longrightarrow>
           (out, w') =
             (case api_get env (the fallback) config w1 of
                (Inr res2, w2) \<Rightarrow> (Inr (data res2), w2)
              | (Inl e2, w2) \<Rightarrow> (Inl (AxiosError e2), w2))"
    using assms(1) assms(2) by (auto simp: wanted getWithFallback_retry)
  have g3: "\<forall>e. r1 = Inl e \<and> \<not> fallback_wanted r1 fallback \<longrightarrow>
           out = Inl (handleError env e) \<and> (\<exists>msg. out = Inl (Error msg)) \<and> w' = w1"
  proof (intro allI impI)
    fix e assume a: "r1 = Inl e \<and> \<not> fallback_wanted r1 fallback"
    then have "\<not> (is_404 e \<and> supplied fallback)" by (auto simp: fallback_wanted_def)
    with a assms(1) assms(2) have "out = Inl (handleError env e) \<and> w' = w1"
      by (simp add: getWithFallback_other_failure)
    with handleError_is_Error [of env e]
    show "out = Inl (handleError env e) \<and> (\<exists>msg. out = Inl (Error msg)) \<and> w' = w1"
      by auto
  qed
  have g4: "\<forall>res. r1 = Inr res \<longrightarrow> out = Inr (data res) \<and> w' = w1"
    using assms(1) assms(2) by (auto simp: getWithFallback_primary_ok)
  have p1: "issued v v' =
       (if fallback_wanted q1 fallback
        then [post_request primary b config, post_request (the fallback) b config]
        else [post_request primary b config])"
    using postWithFallback_issued [OF assms(3) assms(4)] by (simp add: wanted)
  have p2: "fallback_wanted q1 fallback \<longrightarrow>
           (pout, v') =
             (case api_post env (the fallback) b config v1 of
                (Inr res2, v2) \<Rightarrow> (Inr (data res2), v2)
              | (Inl e2, v2) \<Rightarrow> (Inl (AxiosError e2), v2))"
    using assms(3) assms(4) by (auto simp: wanted postWithFallback_retry)
  have p3: "\<forall>e. q1 = Inl e \<and> \<not> fallback_wanted q1 fallback \<longrightarrow>
           pout = Inl (handleError env e) \<and> (\<exists>msg. pout = Inl (Error msg)) \<and> v' = v1"
  proof (intro allI impI)
    fix e assume a: "q1 = Inl e \<and> \<not> fallback_wanted q1 fallback"
    then have "\<not> (is_404 e \<and> supplied fallback)" by (auto simp: fallback_wanted_def)
    with a assms(3) assms(4) have "pout = Inl (handleError env e) \<and> v' = v1"
      by (simp add: postWithFallback_other_failure)
    with handleError_is_Error [of env e]
    show "pout = Inl (handleError env e) \<and> (\<exists>msg. pout = Inl (Error msg)) \<and> v' = v1"
      by auto
  qed
  have p4: "\<forall>res. q1 = Inr res \<longrightarrow> pout = Inr (data res) \<and> v' = v1"
    using assms(3) assms(4) by (auto simp: postWithFallback_primary_ok)
  from g1 g2 g3 g4 p1 p2 p3 p4 show ?thesis by blast
qed


theorem fallback_tried_iff_primary_404_witness:
  "getWithFallback example_env ''/loans/mine'' (Some ''/loans/loans/mine'') [] (0, []) =
     (Inr (JStr ''ok''), (1, [get_request ''/loans/mine'' [], get_request ''/loans/loans/mine'' []]))
   \<and> issued (0, []) (1 :: nat, [get_request ''/loans/mine'' [], get_request ''/loans/loans/mine'' []]) =
       [get_request ''/loans/mine'' [], get_request ''/loans/loans/mine'' []]
   \<and> postWithFallback example_env ''/loans/mine'' (Some ''/loans/loans/mine'') JNull [] (0, []) =
       (Inr (JStr ''ok''),
        (1, [post_request ''/loans/mine'' JNull [], post_request ''/loans/loans/mine'' JNull []]))
   \<and> getWithFallback example_env ''/loans/chart'' (Some ''/loans/loans/chart'') [] (0, []) =
       (Inl (Error ''Internal Server Error''), (0, [get_request ''/loans/chart'' []]))
   \<and> postWithFallback example_env ''/loans/chart'' (Some ''/loans/loans/chart'') JNull [] (0, []) =
       (Inl (Error ''Internal Server Error''), (0, [post_request ''/loans/chart'' JNull []]))
   \<and> issued (0, []) (0 :: nat, [post_request ''/loans/chart'' JNull []]) =
       [post_request ''/loans/chart'' JNull []]"
proof -
  let ?e404 = "\<lparr>err_response = Some \<lparr>status = 404, data = JObj [(''detail'', JStr ''Not Found'')]\<rparr>,
                 err_message = ''Request failed with status code 404''\<rparr>"
  let ?e500 = "\<lparr>err_response = Some \<lparr>status = 500, data = JStr ''Internal Server Error''\<rparr>,
                 err_message = ''Request failed with status code 500''\<rparr>"
  note defs = getWithFallback_def postWithFallback_def api_get_def api_post_def api_request_def
    example_env_def example_send_def get_request_def post_request_def is_404_def supplied_def
    handleError_def
  have g1: "api_get example_env ''/loans/mine'' [] (0, []) =
              (Inl ?e404, (0, [get_request ''/loans/mine'' []]))"
    by (simp add: defs)
  have g2: "getWithFallback example_env ''/loans/mine'' (Some ''/loans/loans/mine'') [] (0, []) =
              (Inr (JStr ''ok''), (1, [get_request ''/loans/mine'' [], get_request ''/loans/loans/mine'' []]))"
    by (simp add: defs)
  have p1: "api_post example_env ''/loans/mine'' JNull [] (0, []) =
              (Inl ?e404, (0, [post_request ''/loans/mine'' JNull []]))"
    by (simp add: defs)
  have p2: "postWithFallback example_env ''/loans/mine'' (Some ''/loans/loans/mine'') JNull [] (0, []) =
              (Inr (JStr ''ok''),
               (1, [post_request ''/loans/mine'' JNull [], post_request ''/loans/loans/mine'' JNull []]))"
    by (simp add: defs)
  have g3: "api_get example_env ''/loans/chart'' [] (0, []) =
              (Inl ?e500, (0, [get_request ''/loans/chart'' []]))"
    by (simp add: defs)
  have g4: "getWithFallback example_env ''/loans/chart'' (Some ''/loans/loans/chart'') [] (0, []) =
              (Inl (Error ''Internal Server Error''), (0, [get_request ''/loans/chart'' []]))"
    by (simp add: defs)
  have p3: "api_post example_env ''/loans/chart'' JNull [] (0, []) =
              (Inl ?e500, (0, [post_request ''/loans/chart'' JNull []]))"
    by (simp add: defs)
  have p4: "postWithFallback example_env ''/loans/chart'' (Some ''/loans/loans/chart'') JNull [] (0, []) =
              (Inl (Error ''Internal Server Error''), (0, [post_request ''/loans/chart'' JNull []]))"
    by (simp add: defs)
  have f1: "fallback_wanted (Inl ?e404) (Some ''/loans/loans/mine'')"
    by (simp add: fallback_wanted_def is_404_def supplied_def)
  have f2: "\<not> fallback_wanted (Inl ?e500) (Some ''/loans/loans/chart'')"
    by (simp add: fallback_wanted_def is_404_def supplied_def)
  from fallback_tried_iff_primary_404 [OF g1 g2 p1 p2] f1
  have a: "issued (0, []) (1 :: nat, [get_request ''/loans/mine'' [], get_request ''/loans/loans/mine'' []]) =
             [get_request ''/loans/mine'' [], get_request ''/loans/loans/mine'' []]"
    by simp
  from fallback_tried_iff_primary_404 [OF g3 g4 p3 p4] f2
  have b: "issued (0, []) (0 :: nat, [post_request ''/loans/chart'' JNull []]) =
             [post_request ''/loans/chart'' JNull []]"
    by simp
  from a b g2 p2 g4 p4 show ?thesis by simp
qed

text \<open>
  Claim C9. Whatever its arguments, \<open>payInstallment\<close> rejects with the deprecation
  \<open>Error\<close>, issues no request and leaves the world as it was. Hence \<open>pay(r)\<close> of the
  repayments page, which calls \<open>payInstallment(loanId, r.id)\<close>, always lands in its
  \<open>catch\<close>: it shows the deprecation message, never reloads the schedule and never opens
  a receipt.
\<close>

theorem payInstallment_always_throws:
  "payInstallment args w = (Inl (Error deprecation_message), w)
   \<and> issued w (snd (payInstallment args w)) = []
   \<and> pay load loanId r_id (p, w) = ([Alert deprecation_message], (p, w))"
  by (simp add: payInstallment_def pay_def issued_def deprecation_message_nonempty)

theorem payInstallment_always_throws_witness:
  "payInstallment [JStr ''7'', JStr ''3''] (0 :: nat, []) = (Inl (Error deprecation_message), (0, []))
   \<and> pay (\<lambda>pw. (True, snd pw)) (JStr ''7'') (JStr ''3'') (False, (0 :: nat, [])) =
       ([Alert deprecation_message], (False, (0, [])))"
  using payInstallment_always_throws [of "[JStr ''7'', JStr ''3'']" "(0 :: nat, [])"
      "\<lambda>pw. (True, snd pw)" "JStr ''7''" "JStr ''3''" False]
  by simp

text \<open>
  Claim C10. However the dialog's amount field is filled, \<open>submit\<close> calls
  \<open>createStripeIntent(loan.id, repayment.id, payAmt, "usd")\<close> with a number in the third
  position, where \<open>createStripeIntent\<close> destructures an options object. A number has
  neither an \<open>amount\<close> nor a \<open>currency\<close> property, so the call is the POST of the intent
  path with both query parameters \<open>undefined\<close>. The first request \<open>submit\<close> issues is that
  POST, and every request it issues is either an intent request with both parameters
  \<open>undefined\<close> or the later confirmation request. What the server does with a request
  that names no amount is the server's; it is not part of these sources.
\<close>

theorem intent_request_carries_no_amount:
  "createStripeIntent env [loan_id, rp_id rp, JNum (payAmt env rp d), JStr ''usd''] w =
     postWithFallback env (intent_primary env loan_id (rp_id rp))
       (Some (intent_fallback env loan_id (rp_id rp))) JNull
       [(''amount'', JUndefined), (''currency'', JUndefined)] w
   \<and> (\<exists>rest. issued w (snd (submit env confirmCardPayment loan_id rp d w)) =
         post_request (intent_primary env loan_id (rp_id rp)) JNull
           [(''amount'', JUndefined), (''currency'', JUndefined)] # rest)
   \<and> (\<forall>rq \<in> set (issued w (snd (submit env confirmCardPayment loan_id rp d w))).
         (url rq \<in> {intent_primary env loan_id (rp_id rp), intent_fallback env loan_id (rp_id rp)}
          \<and> params rq = [(''amount'', JUndefined), (''currency'', JUndefined)])
         \<or> (\<exists>pid. rq = post_request ''/loans/payments/confirm'' JNull [(''payment_intent_id'', pid)]))"
proof -
  let ?P = "intent_primary env loan_id (rp_id rp)"
  let ?F = "intent_fallback env loan_id (rp_id rp)"
  let ?U = "[(''amount'', JUndefined), (''currency'', JUndefined)]"
  let ?w' = "snd (submit env confirmCardPayment loan_id rp d w)"
  have c: "createStripeIntent env [loan_id, rp_id rp, JNum (payAmt env rp d), JStr ''usd''] w =
             postWithFallback env ?P (Some ?F) JNull ?U w"
    by (rule createStripeIntent_positional)
  obtain out w1 where i: "createStripeIntent env [loan_id, rp_id rp, JNum (payAmt env rp d), JStr ''usd''] w = (out, w1)"
      and w': "?w' = w1 \<or> (\<exists>pid r. confirmStripeAuthorization env pid w1 = (r, ?w'))"
    using submit_world [of env confirmCardPayment loan_id rp d w "?w'"] by blast
  from i c have "postWithFallback env ?P (Some ?F) JNull ?U w = (out, w1)" by simp
  from postWithFallback_log [OF this]
  obtain rest where l1: "snd w1 = snd w @ post_request ?P JNull ?U # rest"
      and rest: "rest = [] \<or> rest = [post_request ?F JNull ?U]"
    by blast
  from w' obtain tl where l2: "snd ?w' = snd w1 @ tl"
      and tl: "tl = [] \<or> (\<exists>pid. tl = [post_request ''/loans/payments/confirm'' JNull [(''payment_intent_id'', pid)]])"
    by (auto dest: confirmStripeAuthorization_log)
  from l1 l2 have iss: "issued w ?w' = post_request ?P JNull ?U # rest @ tl"
    by (simp add: issued_def)
  have "\<forall>rq \<in> set (post_request ?P JNull ?U # rest @ tl).
         (url rq \<in> {?P, ?F} \<and> params rq = ?U)
         \<or> (\<exists>pid. rq = post_request ''/loans/payments/confirm'' JNull [(''payment_intent_id'', pid)])"
    using rest tl by (auto simp: post_request_def)
  with c iss show ?thesis by simp
qed


theorem intent_request_carries_no_amount_witness:
  "amount example_dialog = JNum (Num 250)
   \<and> issued (0, []) (snd (submit example_env card_holds_funds (JStr ''7'') example_repayment example_dialog (0, []))) =
       [post_request ''/loans/7/repayments/3/stripe/intent'' JNull
          [(''amount'', JUndefined), (''currency'', JUndefined)],
        post_request ''/loans/payments/confirm'' JNull [(''payment_intent_id'', JStr ''pi_1'')]]"
proof -
  have a: "amount example_dialog = JNum (Num 250)"
    by (simp add: example_dialog_def)
  from intent_request_carries_no_amount [of example_env "JStr ''7''" example_repayment example_dialog
      "(0, [])" card_holds_funds]
  have "issued (0, []) (snd (submit example_env card_holds_funds (JStr ''7'') example_repayment example_dialog (0, []))) =
       [post_request ''/loans/7/repayments/3/stripe/intent'' JNull
          [(''amount'', JUndefined), (''currency'', JUndefined)],
        post_request ''/loans/payments/confirm'' JNull [(''payment_intent_id'', JStr ''pi_1'')]]"
    by (simp add: example_submit_held issued_def)
  with a show ?thesis by simp
qed

section \<open>Properties of the repayment lifecycle\<close>









lemma authorize_failure_keeps_ledger:
  "authorize collab now l rid requested cur = (Inl f, l') \<Longrightarrow> l' = l"
  by (auto simp: authorize_def Let_def split: if_splits option.splits)

lemma confirm_keeps_ledger: "snd (confirm collab l ref) = l"
  by (simp add: confirm_def split: option.splits)

lemma capture_failure_keeps_ledger:
  "capture collab emitReceipt now l pid = (Inl f, l') \<Longrightarrow> l' = l"
  by (auto simp: capture_def Let_def split: if_splits option.splits)

lemma cancel_failure_keeps_ledger:
  "cancel collab l pid = (Inl f, l') \<Longrightarrow> l' = l"
  by (auto simp: cancel_def Let_def split: if_splits)

lemma perform_failure_keeps_ledger:
  assumes "perform collab emitReceipt l step = (Some f, l')"
  shows "l' = l"
proof -
  obtain now op where s: "step = (now, op)" by (cases step)
  show ?thesis
  proof (cases op)
    case (Authorize rid requested cur)
    with s assms show ?thesis
      by (cases "authorize collab now l rid requested cur")
         (auto simp: failure_of_def split: sum.splits dest: authorize_failure_keeps_ledger)
  next
    case (Confirm ref)
    with s assms show ?thesis
      using confirm_keeps_ledger [of collab l ref] by (auto simp: failure_of_def)
  next
    case (Capture pid)
    with s assms show ?thesis
      by (cases "capture collab emitReceipt now l pid")
         (auto simp: failure_of_def split: sum.splits dest: capture_failure_keeps_ledger)
  next
    case (Cancel pid)
    with s assms show ?thesis
      by (cases "cancel collab l pid")
         (auto simp: failure_of_def split: sum.splits dest: cancel_failure_keeps_ledger)
  qed
qed

lemma may_become_refl: "may_become s s"
proof (cases s)
  case None
  then show ?thesis by simp
next
  case (Some a)
  then show ?thesis by (cases a) auto
qed

lemma authorize_status:
  "may_become (status_of l pid) (status_of (snd (authorize collab now l rid requested cur)) pid)"
  by (auto simp: authorize_def Let_def status_of_def nth_append may_become_refl split: option.splits)

lemma capture_status:
  "may_become (status_of l pid) (status_of (snd (capture collab emitReceipt now l q)) pid)"
  by (auto simp: capture_def Let_def status_of_def nth_list_update may_become_refl split: option.splits)

lemma cancel_status:
  "may_become (status_of l pid) (status_of (snd (cancel collab l q)) pid)"
  by (auto simp: cancel_def Let_def status_of_def nth_list_update may_become_refl)

lemma perform_status:
  "may_become (status_of l pid) (status_of (snd (perform collab emitReceipt l step)) pid)"
proof -
  obtain now op where s: "step = (now, op)" by (cases step)
  show ?thesis
    using authorize_status capture_status cancel_status
    by (cases op) (simp_all add: s failure_of_def confirm_keeps_ledger may_become_refl)
qed

lemma terminal_stays:
  assumes "s = Captured \<or> s = Canceled" and "may_become (Some s) b"
  shows "b = Some s"
  using assms by auto

lemma run_keeps_terminal:
  assumes "s = Captured \<or> s = Canceled"
  shows "status_of l pid = Some s \<Longrightarrow> status_of (run collab emitReceipt l steps) pid = Some s"
proof (induction steps arbitrary: l)
  case Nil
  then show ?case by simp
next
  case (Cons step steps)
  from perform_status [of l pid collab emitReceipt step] Cons.prems
  have "may_become (Some s) (status_of (snd (perform collab emitReceipt l step)) pid)"
    by simp
  with assms have "status_of (snd (perform collab emitReceipt l step)) pid = Some s"
    by (rule terminal_stays)
  then show ?case by (simp add: Cons.IH)
qed

lemma capture_rejects_terminal:
  assumes "status_of l pid = Some s" and "s = Captured \<or> s = Canceled"
  shows "capture collab emitReceipt now l pid = (Inl InvalidState, l)"
  using assms by (auto simp: capture_def status_of_def Let_def split: if_splits)

lemma cancel_rejects_terminal:
  assumes "status_of l pid = Some s" and "s = Captured \<or> s = Canceled"
  shows "cancel collab l pid = (Inl InvalidState, l)"
  using assms by (auto simp: cancel_def status_of_def Let_def split: if_splits)

lemma capture_succeeds:
  assumes "status_of l pid = Some Authorized"
      and "repayment_id (authorizations l ! pid) < length (repayments l)"
      and "capture_funds collab (external_reference (authorizations l ! pid)) = Some captured"
  shows "status_of (snd (capture collab emitReceipt now l pid)) pid = Some Captured"
  using assms by (auto simp: capture_def status_of_def Let_def split: if_splits)

lemma cancel_succeeds:
  assumes "status_of l pid = Some Authorized"
      and "void_hold collab (external_reference (authorizations l ! pid))"
  shows "status_of (snd (cancel collab l pid)) pid = Some Canceled"
  using assms by (auto simp: cancel_def status_of_def Let_def split: if_splits)

lemma settled_ledger_value:
  "settled_ledger =
     \<lparr>repayments =
        [\<lparr>r_loan_id = 7, sequence_index = 1, due_date = \<lparr>year = 2024, month = 1, day = 1\<rparr>,
          amount_due = 1000, amount_paid = 1000, installment_status = Paid,
          receipt_reference = Some ''receipts/pi_1.pdf''\<rparr>],
      authorizations =
        [\<lparr>pa_loan_id = 7, repayment_id = 0, authorized_amount = 1000, currency = ''usd'',
          authorization_status = Captured,
          authorized_at = \<lparr>year = 2023, month = 12, day = 20\<rparr>,
          external_reference = ''pi_1''\<rparr>]\<rparr>"
  by code_simp

text \<open>
  Claim C4. \<open>reconcile\<close> returns one status, decided in this order: \<open>Paid\<close> when
  \<open>amount_paid \<ge> amount_due\<close> (overpayment included); otherwise \<open>PartiallyPaid\<close> when
  \<open>amount_paid > 0\<close>; otherwise \<open>Late\<close> when the due date is before now; otherwise \<open>Due\<close>.
  An installment due on 2024-01-01 with 500 due and nothing paid is \<open>Late\<close> on
  2024-06-01. The result depends on the amounts, the due date and the clock only, so
  reconciling again after the status was written gives the same status.
\<close>

theorem reconcile_precedence:
  "(amount_paid r \<ge> amount_due r \<longrightarrow> reconcile now r = Paid)
   \<and> (amount_paid r < amount_due r \<and> amount_paid r > 0 \<longrightarrow> reconcile now r = PartiallyPaid)
   \<and> (amount_paid r < amount_due r \<and> amount_paid r \<le> 0 \<and> before (due_date r) now \<longrightarrow>
         reconcile now r = Late)
   \<and> (amount_paid r < amount_due r \<and> amount_paid r \<le> 0 \<and> \<not> before (due_date r) now \<longrightarrow>
         reconcile now r = Due)
   \<and> reconcile \<lparr>year = 2024, month = 6, day = 1\<rparr>
        (r\<lparr>due_date := \<lparr>year = 2024, month = 1, day = 1\<rparr>, amount_due := 500, amount_paid := 0\<rparr>) = Late
   \<and> (amount_due r' = amount_due r \<and> amount_paid r' = amount_paid r \<and> due_date r' = due_date r \<longrightarrow>
         reconcile now r' = reconcile now r)
   \<and> reconcile now (r\<lparr>installment_status := reconcile now r\<rparr>) = reconcile now r"
  by (simp add: reconcile_def before_def)

theorem reconcile_precedence_witness:
  "reconcile \<lparr>year = 2024, month = 6, day = 1\<rparr> (example_installment\<lparr>amount_due := 500\<rparr>) = Late
   \<and> reconcile \<lparr>year = 2023, month = 6, day = 1\<rparr> example_installment = Due
   \<and> reconcile \<lparr>year = 2023, month = 6, day = 1\<rparr> (example_installment\<lparr>amount_paid := 250\<rparr>) = PartiallyPaid
   \<and> reconcile \<lparr>year = 2023, month = 6, day = 1\<rparr> (example_installment\<lparr>amount_paid := 1200\<rparr>) = Paid"
  using reconcile_precedence [of "example_installment\<lparr>amount_due := 500\<rparr>" "\<lparr>year = 2024, month = 6, day = 1\<rparr>"]
    reconcile_precedence [of example_installment "\<lparr>year = 2023, month = 6, day = 1\<rparr>"]
    reconcile_precedence [of "example_installment\<lparr>amount_paid := 250\<rparr>" "\<lparr>year = 2023, month = 6, day = 1\<rparr>"]
    reconcile_precedence [of "example_installment\<lparr>amount_paid := 1200\<rparr>" "\<lparr>year = 2023, month = 6, day = 1\<rparr>"]
  by (simp add: example_installment_def before_def)




text \<open>
  Claim C5. In one operation a Payment Authorization's status stays as it is, appears
  as \<open>Authorized\<close>, or goes from \<open>Authorized\<close> to \<open>Captured\<close> or \<open>Canceled\<close>, and nothing
  else. \<open>Captured\<close> and \<open>Canceled\<close> are terminal: after any run of authorize, confirm,
  capture and cancel operations such a record has the status it had. \<open>capture\<close> and
  \<open>cancel\<close> on such a record fail with \<open>InvalidState\<close> and leave the ledger as it was,
  so \<open>cancel\<close> on a \<open>Captured\<close> record leaves every \<open>amount_paid\<close> unchanged; and an
  operation that fails, whichever it is, changes nothing. An \<open>Authorized\<close> record does
  move: to \<open>Captured\<close> when the collaborator captures, to \<open>Canceled\<close> when it voids.
\<close>

theorem captured_and_canceled_are_terminal:
  "may_become (status_of l pid) (status_of (snd (perform collab emitReceipt l step)) pid)
   \<and> (status_of l pid = Some Captured \<longrightarrow>
         status_of (run collab emitReceipt l steps) pid = Some Captured)
   \<and> (status_of l pid = Some Canceled \<longrightarrow>
         status_of (run collab emitReceipt l steps) pid = Some Canceled)
   \<and> (status_of l pid = Some Captured \<or> status_of l pid = Some Canceled \<longrightarrow>
         capture collab emitReceipt now l pid = (Inl InvalidState, l)
         \<and> cancel collab l pid = (Inl InvalidState, l))
   \<and> (status_of l pid = Some Captured \<longrightarrow>
         map amount_paid (repayments (snd (cancel collab l pid))) = map amount_paid (repayments l))
   \<and> (\<forall>f l'. perform collab emitReceipt l step = (Some f, l') \<longrightarrow> l' = l)
   \<and> (status_of l pid = Some Authorized
        \<and> repayment_id (authorizations l ! pid) < length (repayments l)
        \<and> capture_funds collab (external_reference (authorizations l ! pid)) \<noteq> None \<longrightarrow>
         status_of (snd (capture collab emitReceipt now l pid)) pid = Some Captured)
   \<and> (status_of l pid = Some Authorized
        \<and> void_hold collab (external_reference (authorizations l ! pid)) \<longrightarrow>
         status_of (snd (cancel collab l pid)) pid = Some Canceled)"
proof -
  have a: "may_become (status_of l pid) (status_of (snd (perform collab emitReceipt l step)) pid)"
    by (rule perform_status)
  have b: "status_of l pid = Some Captured \<longrightarrow>
         status_of (run collab emitReceipt l steps) pid = Some Captured"
    using run_keeps_terminal [of Captured l pid collab emitReceipt steps] by simp
  have c: "status_of l pid = Some Canceled \<longrightarrow>
         status_of (run collab emitReceipt l steps) pid = Some Canceled"
    using run_keeps_terminal [of Canceled l pid collab emitReceipt steps] by simp
  have d: "status_of l pid = Some Captured \<or> status_of l pid = Some Canceled \<longrightarrow>
         capture collab emitReceipt now l pid = (Inl InvalidState, l)
         \<and> cancel collab l pid = (Inl InvalidState, l)"
    using capture_rejects_terminal [where l = l and pid = pid and collab = collab
        and emitReceipt = emitReceipt and now = now]
      cancel_rejects_terminal [where l = l and pid = pid and collab = collab]
    by blast
  have e: "status_of l pid = Some Captured \<longrightarrow>
         map amount_paid (repayments (snd (cancel collab l pid))) = map amount_paid (repayments l)"
    using d by auto
  have f: "\<forall>f l'. perform collab emitReceipt l step = (Some f, l') \<longrightarrow> l' = l"
    using perform_failure_keeps_ledger by blast
  have g: "status_of l pid = Some Authorized
        \<and> repayment_id (authorizations l ! pid) < length (repayments l)
        \<and> capture_funds collab (external_reference (authorizations l ! pid)) \<noteq> None \<longrightarrow>
         status_of (snd (capture collab emitReceipt now l pid)) pid = Some Captured"
    using capture_succeeds [where l = l and pid = pid and collab = collab and emitReceipt = emitReceipt and now = now] by auto
  have h: "status_of l pid = Some Authorized
        \<and> void_hold collab (external_reference (authorizations l ! pid)) \<longrightarrow>
         status_of (snd (cancel collab l pid)) pid = Some Canceled"
    using cancel_succeeds [where l = l and pid = pid and collab = collab] by auto
  from a b c d e f g h show ?thesis by blast
qed

theorem captured_and_canceled_are_terminal_witness:
  "status_of settled_ledger 0 = Some Captured
   \<and> cancel example_collaborator settled_ledger 0 = (Inl InvalidState, settled_ledger)
   \<and> capture example_collaborator example_receipt \<lparr>year = 2024, month = 1, day = 2\<rparr> settled_ledger 0 =
       (Inl InvalidState, settled_ledger)
   \<and> map amount_paid (repayments (snd (cancel example_collaborator settled_ledger 0))) = [1000]
   \<and> status_of (run example_collaborator example_receipt settled_ledger
        [(\<lparr>year = 2024, month = 1, day = 2\<rparr>, Cancel 0),
         (\<lparr>year = 2024, month = 1, day = 3\<rparr>, Authorize 0 None ''usd''),
         (\<lparr>year = 2024, month = 1, day = 4\<rparr>, Capture 0)]) 0 = Some Captured"
proof -
  have s: "status_of settled_ledger 0 = Some Captured"
    by (simp add: settled_ledger_value status_of_def)
  have p: "map amount_paid (repayments settled_ledger) = [1000]"
    by (simp add: settled_ledger_value)
  let ?steps = "[(\<lparr>year = 2024, month = 1, day = 2\<rparr>, Cancel 0),
        (\<lparr>year = 2024, month = 1, day = 3\<rparr>, Authorize 0 None ''usd''),
        (\<lparr>year = 2024, month = 1, day = 4\<rparr>, Capture 0)]"
  note t = captured_and_canceled_are_terminal [of settled_ledger 0 example_collaborator example_receipt
      "(\<lparr>year = 2024, month = 1, day = 2\<rparr>, Cancel 0)" ?steps
      "\<lparr>year = 2024, month = 1, day = 2\<rparr>"]
  from t s have r: "status_of (run example_collaborator example_receipt settled_ledger ?steps) 0 = Some Captured"
    by blast
  from t s have c: "capture example_collaborator example_receipt \<lparr>year = 2024, month = 1, day = 2\<rparr> settled_ledger 0 =
       (Inl InvalidState, settled_ledger)"
    and d: "cancel example_collaborator settled_ledger 0 = (Inl InvalidState, settled_ledger)"
    by blast+
  from t s p have e: "map amount_paid (repayments (snd (cancel example_collaborator settled_ledger 0))) = [1000]"
    by metis
  from s d c e r show ?thesis by blast
qed

end
